theory Spec2Isabelle
  imports Main "HOL-Library.Word"
begin

section \<open>Common Go values\<close>

text \<open>
  A Go \<^verbatim>\<open>error\<close> value. \<open>Err\<close> is an opaque error carrying its message,
  \<open>Wrapped\<close> is what \<^verbatim>\<open>errors.Wrap\<close>, \<^verbatim>\<open>errors.Wrapf\<close> and
  \<^verbatim>\<open>errors.WithMessage\<close> build, \<open>Aggregate\<close> is the aggregate of
  \<^verbatim>\<open>k8s.io/apimachinery/pkg/util/errors\<close>. \<open>Panic\<close> is not a value a function
  returns: it marks a run that ends in a runtime panic. \<^verbatim>\<open>errors.WithStack\<close> only
  attaches a stack trace and is modelled as the identity.
\<close>

datatype error =
    Err string
  | Wrapped string error
  | Aggregate "error list"
  | Panic string


text \<open>
  Reading a Go map at a key yields the zero value when the key is absent; for a
  \<^verbatim>\<open>map[string]string\<close> that is the empty string.
\<close>

definition go_lookup :: "(string \<rightharpoonup> string) \<Rightarrow> string \<Rightarrow> string" where
  "go_lookup m k = (case m k of None \<Rightarrow> [] | Some v \<Rightarrow> v)"

text \<open>
  \<^verbatim>\<open>for k, v := range m\<close> visits every entry of the map once, in an order the
  runtime picks. The order is a parameter: a list \<open>order\<close> is an iteration order of
  \<open>m\<close> when it enumerates the keys of \<open>m\<close> without repetition.
\<close>

definition iteration_order :: "'k list \<Rightarrow> ('k \<rightharpoonup> 'v) \<Rightarrow> bool" where
  "iteration_order order m = (distinct order \<and> set order = dom m)"

definition go_range :: "'k list \<Rightarrow> ('k \<rightharpoonup> 'v) \<Rightarrow> ('k \<times> 'v) list" where
  "go_range order m = List.map_filter (\<lambda>k. map_option (Pair k) (m k)) order"


section \<open>pkg/restic: command lines\<close>

record restic_Command =
  BaseName :: string
  Command :: string
  RepoPrefix :: string
  Repo :: string
  PasswordFile :: string
  Args :: "string list"
  ExtraFlags :: "string list"

definition repoFlag :: "string \<Rightarrow> string \<Rightarrow> string" where
  "repoFlag prefix repo = ''--repo='' @ prefix @ ''/'' @ repo"

definition passwordFlag :: "string \<Rightarrow> string" where
  "passwordFlag file = ''--password-file='' @ file"

text \<open>\<^verbatim>\<open>Command.StringSlice\<close>, append by append as the source builds \<^verbatim>\<open>res\<close>.\<close>

definition StringSlice :: "restic_Command \<Rightarrow> string list" where
  "StringSlice c =
    (let res0 = (if BaseName c \<noteq> [] then [] @ [BaseName c] else [] @ [''/restic'']);
         res1 = res0 @ [Command c, repoFlag (RepoPrefix c) (Repo c)];
         res2 = (if PasswordFile c \<noteq> [] then res1 @ [passwordFlag (PasswordFile c)] else res1);
         res3 = res2 @ Args c;
         res4 = res3 @ ExtraFlags c
     in res4)"

definition tagFlag :: "string \<times> string \<Rightarrow> string" where
  "tagFlag kv = ''--tag='' @ fst kv @ ''='' @ snd kv"

definition backupTagFlags :: "string list \<Rightarrow> (string \<rightharpoonup> string) \<Rightarrow> string list" where
  "backupTagFlags order tags = map tagFlag (go_range order tags)"

text \<open>
  \<^verbatim>\<open>BackupCommand\<close>; the fields the struct literal leaves out take their zero
  value. \<open>order\<close> is the order in which the runtime ranges over \<open>tags\<close>.
\<close>

definition BackupCommand ::
  "string \<Rightarrow> string \<Rightarrow> string \<Rightarrow> string \<Rightarrow> string list \<Rightarrow> (string \<rightharpoonup> string) \<Rightarrow> restic_Command" where
  "BackupCommand repoPrefix repo passwordFile path order tags =
     \<lparr> BaseName = [],
       Command = ''backup'',
       RepoPrefix = repoPrefix,
       Repo = repo,
       PasswordFile = passwordFile,
       Args = [path],
       ExtraFlags = backupTagFlags order tags \<rparr>"

text \<open>
  The tags \<^verbatim>\<open>handleResticBackup\<close> builds for one volume of a pod (the map literal of
  its loop body) and the flags it formats from them.
\<close>

record restic_tag_source =
  rts_backupName :: string
  rts_backupUID :: string
  rts_podNamespace :: string
  rts_podName :: string
  rts_podUID :: string

definition handleResticBackup_tags :: "restic_tag_source \<Rightarrow> string \<Rightarrow> (string \<rightharpoonup> string)" where
  "handleResticBackup_tags s volumeName =
     [''backup'' \<mapsto> rts_backupName s,
      ''ns'' \<mapsto> rts_podNamespace s,
      ''pod'' \<mapsto> rts_podName s,
      ''volume'' \<mapsto> volumeName,
      ''backup-uid'' \<mapsto> rts_backupUID s,
      ''pod-uid'' \<mapsto> rts_podUID s]"

definition handleResticBackup_tagsFlags ::
  "string list \<Rightarrow> restic_tag_source \<Rightarrow> string \<Rightarrow> string list" where
  "handleResticBackup_tagsFlags order s volumeName =
     map tagFlag (go_range order (handleResticBackup_tags s volumeName))"


section \<open>pkg/cmd/server: configuration defaults\<close>

text \<open>\<^verbatim>\<open>time.Duration\<close> is an \<^verbatim>\<open>int64\<close> count of nanoseconds.\<close>

type_synonym Duration = "64 word"

definition Minute :: Duration where
  "Minute = 60 * 1000000000"

definition defaultGCSyncPeriod :: Duration where
  "defaultGCSyncPeriod = 60 * Minute"

definition defaultBackupSyncPeriod :: Duration where
  "defaultBackupSyncPeriod = 60 * Minute"

definition defaultScheduleSyncPeriod :: Duration where
  "defaultScheduleSyncPeriod = Minute"

definition defaultResourcePriorities :: "string list" where
  "defaultResourcePriorities =
     [''namespaces'', ''persistentvolumes'', ''persistentvolumeclaims'', ''secrets'',
      ''configmaps'', ''serviceaccounts'', ''limitranges'', ''pods'']"

text \<open>
  The fields of \<^verbatim>\<open>api.Config\<close> that \<^verbatim>\<open>applyConfigDefaults\<close> reads or writes.
  The provider's \<^verbatim>\<open>Config\<close> map may be nil (\<open>None\<close>).
\<close>

record ObjectStorageProviderConfig =
  bsp_Name :: string
  bsp_Config :: "(string \<rightharpoonup> string) option"
  bsp_Bucket :: string

record ark_Config =
  GCSyncPeriod :: Duration
  BackupSyncPeriod :: Duration
  ScheduleSyncPeriod :: Duration
  ResourcePriorities :: "string list"
  BackupStorageProvider :: ObjectStorageProviderConfig

text \<open>
  \<^verbatim>\<open>applyConfigDefaults\<close> mutates the Config it is given; the model returns the
  Config after the call. Logging is left out. The last assignment writes into a map the
  step before has made non-nil.
\<close>

definition applyConfigDefaults :: "ark_Config \<Rightarrow> ark_Config" where
  "applyConfigDefaults c0 =
    (let c1 = (if GCSyncPeriod c0 = 0 then c0\<lparr>GCSyncPeriod := defaultGCSyncPeriod\<rparr> else c0);
         c2 = (if BackupSyncPeriod c1 = 0
               then c1\<lparr>BackupSyncPeriod := defaultBackupSyncPeriod\<rparr> else c1);
         c3 = (if ScheduleSyncPeriod c2 = 0
               then c2\<lparr>ScheduleSyncPeriod := defaultScheduleSyncPeriod\<rparr> else c2);
         c4 = (if length (ResourcePriorities c3) = 0
               then c3\<lparr>ResourcePriorities := defaultResourcePriorities\<rparr> else c3);
         c5 = (if bsp_Config (BackupStorageProvider c4) = None
               then c4\<lparr>BackupStorageProvider :=
                      (BackupStorageProvider c4)\<lparr>bsp_Config := Some Map.empty\<rparr>\<rparr>
               else c4);
         p = BackupStorageProvider c5
     in c5\<lparr>BackupStorageProvider :=
            p\<lparr>bsp_Config := map_option (\<lambda>m. m(''bucket'' \<mapsto> bsp_Bucket p)) (bsp_Config p)\<rparr>\<rparr>)"


section \<open>pkg/cmd/cli/restic: init-repository options\<close>





section \<open>pkg/backup: data\<close>

text \<open>
  \<^verbatim>\<open>schema.GroupResource\<close> and its \<^verbatim>\<open>String\<close> method (the resource alone when
  the group is empty, otherwise resource, a dot, group).
\<close>

record GroupResource =
  gr_Group :: string
  gr_Resource :: string

definition GroupResource_String :: "GroupResource \<Rightarrow> string" where
  "GroupResource_String gr =
     (if length (gr_Group gr) = 0 then gr_Resource gr else gr_Resource gr @ ''.'' @ gr_Group gr)"

text \<open>
  Modelled from the spec: package \<^verbatim>\<open>kuberesource\<close> is not among the sources. The spec
  names the resources \<^verbatim>\<open>namespaces\<close> and \<^verbatim>\<open>PersistentVolume\<close>; both live in
  the core (empty) group.
\<close>

definition Namespaces :: GroupResource where
  "Namespaces = \<lparr> gr_Group = [], gr_Resource = ''namespaces'' \<rparr>"

definition PersistentVolumes :: GroupResource where
  "PersistentVolumes = \<lparr> gr_Group = [], gr_Resource = ''persistentvolumes'' \<rparr>"

text \<open>
  Modelled from the spec: the directory names of package \<^verbatim>\<open>api\<close> are not among the
  sources; the spec's archive layout gives them.
\<close>

definition ResourcesDir :: string where
  "ResourcesDir = ''resources''"

definition NamespaceScopedDir :: string where
  "NamespaceScopedDir = ''namespaces''"

definition ClusterScopedDir :: string where
  "ClusterScopedDir = ''cluster''"

record itemKey =
  key_resource :: string
  key_namespace :: string
  key_name :: string

text \<open>
  An object of the cluster as the backupper sees it: the metadata \<^verbatim>\<open>meta.Accessor\<close>
  reaches (none when the accessor fails) and the content that is serialized.
\<close>

record ObjectMeta =
  meta_Namespace :: string
  meta_Name :: string
  meta_Labels :: "string \<rightharpoonup> string"

record Unstructured =
  obj_meta :: "ObjectMeta option"
  obj_content :: string

definition meta_Accessor :: "Unstructured \<Rightarrow> error + ObjectMeta" where
  "meta_Accessor obj =
     (case obj_meta obj of
        None \<Rightarrow> Inl (Err ''object does not implement the Object interfaces'')
      | Some m \<Rightarrow> Inr m)"

record ResourceIdentifier =
  ri_GroupResource :: GroupResource
  ri_Namespace :: string
  ri_Name :: string

text \<open>
  The fields of \<^verbatim>\<open>api.Backup\<close> the item backupper reads or writes. The two flags of
  the spec are \<^verbatim>\<open>*bool\<close> (\<open>None\<close> is nil); the status map may be nil.
\<close>

record VolumeBackupInfo =
  vbi_SnapshotID :: string
  vbi_Type :: string
  vbi_Iops :: "64 word option"
  vbi_AvailabilityZone :: string

record Backup =
  backup_Name :: string
  spec_IncludeClusterResources :: "bool option"
  spec_SnapshotVolumes :: "bool option"
  status_VolumeBackups :: "(string \<rightharpoonup> VolumeBackupInfo) option"

text \<open>
  A \<^verbatim>\<open>tar.Header\<close> with the fields the backupper sets, and an entry of the archive:
  the header and the bytes written after it. \<^verbatim>\<open>tar.TypeReg\<close> is the character
  \<^verbatim>\<open>'0'\<close>; the mode \<^verbatim>\<open>0755\<close> is octal. A \<^verbatim>\<open>time.Time\<close> is an instant, here
  a number.
\<close>

record tar_Header =
  hdr_Name :: string
  hdr_Size :: int
  hdr_Typeflag :: char
  hdr_Mode :: int
  hdr_ModTime :: nat

record tar_entry =
  ent_hdr :: tar_Header
  ent_data :: string

definition TypeReg :: char where
  "TypeReg = CHR ''0''"

definition mode_0755 :: int where
  "mode_0755 = 7 * 64 + 5 * 8 + 5"

datatype hookPhase = hookPhasePre | hookPhasePost

text \<open>
  Calls that leave the process, in the order they are made: the hook handler and the
  three methods of the snapshot service that \<^verbatim>\<open>takePVSnapshot\<close> uses.
\<close>

datatype call =
    HookCall GroupResource Unstructured hookPhase
  | GetVolumeIDCall Unstructured
  | CreateSnapshotCall string string "string \<rightharpoonup> string"
  | GetVolumeInfoCall string string

text \<open>
  What one backup mutates while items are backed up: the Backup object (its status), the
  set \<^verbatim>\<open>backedUpItems\<close>, the entries written to the tar writer, the calls made so
  far, and how often the clock has been read.
\<close>

record bstate =
  st_backup :: Backup
  st_backedUpItems :: "itemKey set"
  st_tar :: "tar_entry list"
  st_calls :: "call list"
  st_clockReads :: nat

text \<open>
  The collaborators of \<^verbatim>\<open>defaultItemBackupper\<close>. Their code is outside the sources
  (interfaces, plugins, the cluster), so each is a parameter: an
  \<^verbatim>\<open>IncludesExcludes\<close> is its \<^verbatim>\<open>ShouldInclude\<close> predicate, a label selector its
  \<^verbatim>\<open>Matches\<close> predicate, the dynamic client for a resource and namespace its
  \<^verbatim>\<open>Get\<close> function. \<open>ib_clock n\<close> is what the \<open>n\<close>-th call of
  \<^verbatim>\<open>time.Now()\<close> returns. The two \<open>tw\<close> fields say when the tar writer fails.
\<close>

record resolvedAction =
  act_resourceIncludesExcludes :: "string \<Rightarrow> bool"
  act_namespaceIncludesExcludes :: "string \<Rightarrow> bool"
  act_selector :: "(string \<rightharpoonup> string) \<Rightarrow> bool"
  act_Execute :: "Unstructured \<Rightarrow> Backup \<Rightarrow> error + (Unstructured \<times> ResourceIdentifier list)"

record SnapshotService =
  svc_GetVolumeID :: "Unstructured \<Rightarrow> error + string"
  svc_CreateSnapshot :: "string \<Rightarrow> string \<Rightarrow> (string \<rightharpoonup> string) \<Rightarrow> error + string"
  svc_GetVolumeInfo :: "string \<Rightarrow> string \<Rightarrow> error + (string \<times> 64 word option)"

record itemBackupper =
  ib_namespaces :: "string \<Rightarrow> bool"
  ib_resources :: "string \<Rightarrow> bool"
  ib_actions :: "resolvedAction list"
  ib_handleHooks :: "GroupResource \<Rightarrow> Unstructured \<Rightarrow> hookPhase \<Rightarrow> error option"
  ib_ResourceFor :: "GroupResource \<Rightarrow> error + GroupResource"
  ib_ClientForGroupVersionResource ::
    "GroupResource \<Rightarrow> string \<Rightarrow> error + (string \<Rightarrow> error + Unstructured)"
  ib_snapshotService :: "SnapshotService option"
  ib_json_Marshal :: "Unstructured \<Rightarrow> error + string"
  ib_tw_WriteHeader :: "tar_entry list \<Rightarrow> tar_Header \<Rightarrow> error option"
  ib_tw_Write :: "tar_entry list \<Rightarrow> string \<Rightarrow> error option"
  ib_clock :: "nat \<Rightarrow> nat"

text \<open>
  \<^verbatim>\<open>kubeerrs.NewAggregate\<close>: nil for an empty list. \<^verbatim>\<open>kuberrs.Flatten\<close>: the
  aggregate of the errors with nested aggregates taken apart.
\<close>

definition NewAggregate :: "error list \<Rightarrow> error option" where
  "NewAggregate errs = (if length errs = 0 then None else Some (Aggregate errs))"

fun flattenErrors :: "error \<Rightarrow> error list" where
  "flattenErrors (Aggregate es) = concat (map flattenErrors es)"
| "flattenErrors e = [e]"

definition Flatten :: "error option \<Rightarrow> error option" where
  "Flatten agg =
     (case agg of
        None \<Rightarrow> None
      | Some e \<Rightarrow> NewAggregate (flattenErrors e))"

text \<open>
  \<^verbatim>\<open>filepath.Join\<close> on the elements the backupper passes: empty elements are dropped
  and the rest joined with a slash. (\<^verbatim>\<open>Join\<close> also cleans the result, which leaves
  such a path alone as long as no element holds a slash or is a dot element.)
\<close>

fun join_slash :: "string list \<Rightarrow> string" where
  "join_slash [] = []"
| "join_slash [x] = x"
| "join_slash (x # y # ys) = x @ ''/'' @ join_slash (y # ys)"

definition filepath_Join :: "string list \<Rightarrow> string" where
  "filepath_Join elems = join_slash (filter (\<lambda>e. e \<noteq> []) elems)"


section \<open>pkg/backup: takePVSnapshot\<close>

definition zoneLabel :: string where
  "zoneLabel = ''failure-domain.beta.kubernetes.io/zone''"

definition logCall :: "call \<Rightarrow> bstate \<Rightarrow> bstate" where
  "logCall c st = st\<lparr>st_calls := st_calls st @ [c]\<rparr>"

definition snapshotTags :: "string \<Rightarrow> string \<Rightarrow> (string \<rightharpoonup> string)" where
  "snapshotTags backupName pvName =
     [''ark.heptio.com/backup'' \<mapsto> backupName, ''ark.heptio.com/pv'' \<mapsto> pvName]"

definition recordVolumeBackup :: "string \<Rightarrow> VolumeBackupInfo \<Rightarrow> bstate \<Rightarrow> bstate" where
  "recordVolumeBackup name info st =
     (let backup = st_backup st;
          volumeBackups = (case status_VolumeBackups backup of
                             None \<Rightarrow> Map.empty
                           | Some m \<Rightarrow> m)
      in st\<lparr>st_backup := backup\<lparr>status_VolumeBackups := Some (volumeBackups(name \<mapsto> info))\<rparr>\<rparr>)"

text \<open>
  \<^verbatim>\<open>takePVSnapshot\<close>, for a snapshot service that is not nil. It returns the error
  and the state it leaves; logging is left out.
\<close>

definition takePVSnapshot :: "SnapshotService \<Rightarrow> Unstructured \<Rightarrow> bstate \<Rightarrow> error option \<times> bstate" where
  "takePVSnapshot svc pv st =
    (if spec_SnapshotVolumes (st_backup st) = Some False then (None, st)
     else
       case meta_Accessor pv of
         Inl err \<Rightarrow> (Some err, st)
       | Inr metadata \<Rightarrow>
           let name = meta_Name metadata;
               labels = meta_Labels metadata;
               pvFailureDomainZone =
                 (if go_lookup labels zoneLabel \<noteq> [] then go_lookup labels zoneLabel else []);
               st1 = logCall (GetVolumeIDCall pv) st
           in case svc_GetVolumeID svc pv of
                Inl err \<Rightarrow>
                  (Some (Wrapped ''error getting volume ID for PersistentVolume'' err), st1)
              | Inr volumeID \<Rightarrow>
                  if volumeID = [] then (None, st1)
                  else
                    let tags = snapshotTags (backup_Name (st_backup st)) (meta_Name metadata);
                        st2 = logCall (CreateSnapshotCall volumeID pvFailureDomainZone tags) st1
                    in case svc_CreateSnapshot svc volumeID pvFailureDomainZone tags of
                         Inl err \<Rightarrow> (Some (Wrapped ''error creating snapshot'' err), st2)
                       | Inr snapshotID \<Rightarrow>
                           let st3 = logCall (GetVolumeInfoCall volumeID pvFailureDomainZone) st2
                           in case svc_GetVolumeInfo svc volumeID pvFailureDomainZone of
                                Inl err \<Rightarrow> (Some (Wrapped ''error getting volume info'' err), st3)
                              | Inr (volumeType, iops) \<Rightarrow>
                                  (None,
                                   recordVolumeBackup name
                                     \<lparr> vbi_SnapshotID = snapshotID,
                                       vbi_Type = volumeType,
                                       vbi_Iops = iops,
                                       vbi_AvailabilityZone = pvFailureDomainZone \<rparr> st3))"


section \<open>pkg/backup: backupItem\<close>

definition itemFilePath :: "string \<Rightarrow> string \<Rightarrow> string \<Rightarrow> string" where
  "itemFilePath resource namespace name =
     (if namespace \<noteq> []
      then filepath_Join [ResourcesDir, resource, NamespaceScopedDir, namespace, name @ ''.json'']
      else filepath_Join [ResourcesDir, resource, ClusterScopedDir, name @ ''.json''])"

text \<open>
  The end of \<^verbatim>\<open>backupItem\<close>: the path, the JSON of the object, the header and the two
  writes. A header that was written stays in the archive when writing the body fails.
\<close>

definition writeItem ::
  "itemBackupper \<Rightarrow> Unstructured \<Rightarrow> GroupResource \<Rightarrow> string \<Rightarrow> string \<Rightarrow> bstate
     \<Rightarrow> error option \<times> bstate" where
  "writeItem ib obj groupResource namespace name st =
    (let filePath = itemFilePath (GroupResource_String groupResource) namespace name
     in case ib_json_Marshal ib obj of
          Inl err \<Rightarrow> (Some err, st)
        | Inr itemBytes \<Rightarrow>
            let hdr = \<lparr> hdr_Name = filePath,
                        hdr_Size = int (length itemBytes),
                        hdr_Typeflag = TypeReg,
                        hdr_Mode = mode_0755,
                        hdr_ModTime = ib_clock ib (st_clockReads st) \<rparr>;
                st1 = st\<lparr>st_clockReads := Suc (st_clockReads st)\<rparr>
            in case ib_tw_WriteHeader ib (st_tar st1) hdr of
                 Some err \<Rightarrow> (Some err, st1)
               | None \<Rightarrow>
                   let st2 = st1\<lparr>st_tar := st_tar st1 @ [\<lparr> ent_hdr = hdr, ent_data = [] \<rparr>]\<rparr>
                   in case ib_tw_Write ib (st_tar st2) itemBytes of
                        Some err \<Rightarrow> (Some err, st2)
                      | None \<Rightarrow>
                          (None,
                           st2\<lparr>st_tar := st_tar st1 @ [\<lparr> ent_hdr = hdr, ent_data = itemBytes \<rparr>]\<rparr>))"

text \<open>
  The snapshot step of \<^verbatim>\<open>backupItem\<close>: for a persistent volume, when a snapshot
  service is configured, \<^verbatim>\<open>takePVSnapshot\<close> runs and its error joins
  \<^verbatim>\<open>backupErrs\<close>.
\<close>

definition snapshotStep ::
  "itemBackupper \<Rightarrow> Unstructured \<Rightarrow> GroupResource \<Rightarrow> error list \<Rightarrow> bstate
     \<Rightarrow> error list \<times> bstate" where
  "snapshotStep ib obj groupResource backupErrs st =
    (if groupResource = PersistentVolumes
     then (case ib_snapshotService ib of
             None \<Rightarrow> (backupErrs, st)
           | Some svc \<Rightarrow>
               (case takePVSnapshot svc obj st of
                  (Some err, st') \<Rightarrow> (backupErrs @ [err], st')
                | (None, st') \<Rightarrow> (backupErrs, st')))
     else (backupErrs, st))"

text \<open>
  \<^verbatim>\<open>backupItem\<close> from the point where \<^verbatim>\<open>executeActions\<close> has returned
  \<open>actionErr\<close>: the snapshot of a persistent volume, the post hooks, the aggregate of
  the errors, and the write.
\<close>

definition backupItem_finish ::
  "itemBackupper \<Rightarrow> Unstructured \<Rightarrow> GroupResource \<Rightarrow> string \<Rightarrow> string \<Rightarrow> error option
     \<Rightarrow> bstate \<Rightarrow> error option \<times> bstate" where
  "backupItem_finish ib obj groupResource namespace name actionErr st =
    (let backupErrs0 = (case actionErr of None \<Rightarrow> [] | Some err \<Rightarrow> [] @ [err]);
         snap = snapshotStep ib obj groupResource backupErrs0 st;
         backupErrs1 = fst snap;
         st2 = logCall (HookCall groupResource obj hookPhasePost) (snd snap);
         backupErrs2 = (case ib_handleHooks ib groupResource obj hookPhasePost of
                          Some err \<Rightarrow> backupErrs1 @ [err]
                        | None \<Rightarrow> backupErrs1)
     in if length backupErrs2 \<noteq> 0 then (NewAggregate backupErrs2, st2)
        else writeItem ib obj groupResource namespace name st2)"

text \<open>
  \<^verbatim>\<open>backupItem\<close> calls \<^verbatim>\<open>executeActions\<close>, which calls \<^verbatim>\<open>backupItem\<close> on
  every additional item an action names. Nothing in the code bounds the depth of this
  recursion, so the model carries fuel: one unit is spent on each nested call of
  \<^verbatim>\<open>backupItem\<close>, and a run that needs more ends in \<open>OutOfFuel\<close>.
  \<open>backupAdditionalItems\<close> is the inner loop of \<^verbatim>\<open>executeActions\<close>.
\<close>

datatype outcome = Returned "error option" | OutOfFuel

text \<open>
  \<^verbatim>\<open>backupItem\<close> up to and including the pre hooks: \<open>Inl\<close> is what it returns when
  it returns there (the accessor failed, the item is excluded or already backed up, the
  pre hooks failed), \<open>Inr\<close> the metadata and the state with which it goes on.
\<close>

definition backupItem_begin ::
  "itemBackupper \<Rightarrow> Unstructured \<Rightarrow> GroupResource \<Rightarrow> bstate
     \<Rightarrow> (error option \<times> bstate) + (ObjectMeta \<times> bstate)" where
  "backupItem_begin ib obj groupResource st =
    (case meta_Accessor obj of
       Inl err \<Rightarrow> Inl (Some err, st)
     | Inr metadata \<Rightarrow>
         let namespace = meta_Namespace metadata;
             name = meta_Name metadata
         in if namespace \<noteq> [] \<and> \<not> ib_namespaces ib namespace then Inl (None, st)
            else if namespace = [] \<and> groupResource \<noteq> Namespaces
                    \<and> spec_IncludeClusterResources (st_backup st) = Some False
            then Inl (None, st)
            else if \<not> ib_resources ib (GroupResource_String groupResource)
            then Inl (None, st)
            else
              let key = \<lparr> key_resource = GroupResource_String groupResource,
                          key_namespace = namespace,
                          key_name = name \<rparr>
              in if key \<in> st_backedUpItems st then Inl (None, st)
                 else
                   let st1 = st\<lparr>st_backedUpItems := insert key (st_backedUpItems st)\<rparr>;
                       st2 = logCall (HookCall groupResource obj hookPhasePre) st1
                   in case ib_handleHooks ib groupResource obj hookPhasePre of
                        Some err \<Rightarrow> Inl (Some err, st2)
                      | None \<Rightarrow> Inr (metadata, st2))"

text \<open>The three tests of \<^verbatim>\<open>executeActions\<close> that skip an action.\<close>

definition actionApplies ::
  "resolvedAction \<Rightarrow> GroupResource \<Rightarrow> string \<Rightarrow> ObjectMeta \<Rightarrow> bool" where
  "actionApplies action groupResource namespace metadata =
    (if \<not> act_resourceIncludesExcludes action (GroupResource_String groupResource) then False
     else if namespace \<noteq> [] \<and> \<not> act_namespaceIncludesExcludes action namespace then False
     else if \<not> act_selector action (meta_Labels metadata) then False
     else True)"

text \<open>
  The first three steps of the inner loop of \<^verbatim>\<open>executeActions\<close>: resolve the
  resource of an additional item, get a client for it, fetch the item.
\<close>

definition getAdditionalItem ::
  "itemBackupper \<Rightarrow> ResourceIdentifier \<Rightarrow> error + (Unstructured \<times> GroupResource)" where
  "getAdditionalItem ib additionalItem =
    (case ib_ResourceFor ib (ri_GroupResource additionalItem) of
       Inl err \<Rightarrow> Inl err
     | Inr gr \<Rightarrow>
         (case ib_ClientForGroupVersionResource ib gr (ri_Namespace additionalItem) of
            Inl err \<Rightarrow> Inl err
          | Inr client_Get \<Rightarrow>
              (case client_Get (ri_Name additionalItem) of
                 Inl err \<Rightarrow> Inl err
               | Inr item \<Rightarrow> Inr (item, gr))))"

fun backupItem ::
      "itemBackupper \<Rightarrow> nat \<Rightarrow> Unstructured \<Rightarrow> GroupResource \<Rightarrow> bstate \<Rightarrow> outcome \<times> bstate"
  and executeActions ::
      "itemBackupper \<Rightarrow> nat \<Rightarrow> resolvedAction list \<Rightarrow> Unstructured \<Rightarrow> GroupResource
         \<Rightarrow> string \<Rightarrow> string \<Rightarrow> ObjectMeta \<Rightarrow> bstate \<Rightarrow> outcome \<times> bstate"
  and backupAdditionalItems ::
      "itemBackupper \<Rightarrow> nat \<Rightarrow> ResourceIdentifier list \<Rightarrow> bstate \<Rightarrow> outcome \<times> bstate"
where
  "backupItem ib fuel obj groupResource st =
    (case backupItem_begin ib obj groupResource st of
       Inl (err, st') \<Rightarrow> (Returned err, st')
     | Inr (metadata, st2) \<Rightarrow>
         (case executeActions ib fuel (ib_actions ib) obj groupResource
                 (meta_Name metadata) (meta_Namespace metadata) metadata st2 of
            (OutOfFuel, st3) \<Rightarrow> (OutOfFuel, st3)
          | (Returned actionErr, st3) \<Rightarrow>
              (case backupItem_finish ib obj groupResource (meta_Namespace metadata)
                      (meta_Name metadata) actionErr st3 of
                 (err, st4) \<Rightarrow> (Returned err, st4))))"
| "executeActions ib fuel [] obj groupResource name namespace metadata st = (Returned None, st)"
| "executeActions ib fuel (action # rest) obj groupResource name namespace metadata st =
    (if \<not> actionApplies action groupResource namespace metadata
     then executeActions ib fuel rest obj groupResource name namespace metadata st
     else
       case act_Execute action obj (st_backup st) of
         Inl err \<Rightarrow>
           (Returned (Some (Wrapped ''error executing custom action'' err)), st)
       | Inr (updatedItem, additionalItemIdentifiers) \<Rightarrow>
           (case backupAdditionalItems ib fuel additionalItemIdentifiers st of
              (Returned None, st') \<Rightarrow>
                executeActions ib fuel rest updatedItem groupResource name namespace metadata st'
            | (Returned (Some err), st') \<Rightarrow> (Returned (Some err), st')
            | (OutOfFuel, st') \<Rightarrow> (OutOfFuel, st')))"
| "backupAdditionalItems ib fuel [] st = (Returned None, st)"
| "backupAdditionalItems ib fuel (additionalItem # rest) st =
    (case getAdditionalItem ib additionalItem of
       Inl err \<Rightarrow> (Returned (Some err), st)
     | Inr (item, gr) \<Rightarrow>
         (case fuel of
            0 \<Rightarrow> (OutOfFuel, st)
          | Suc fuel' \<Rightarrow>
              (case backupItem ib fuel' item gr st of
                 (Returned None, st') \<Rightarrow> backupAdditionalItems ib fuel rest st'
               | (Returned (Some err), st') \<Rightarrow> (Returned (Some err), st')
               | (OutOfFuel, st') \<Rightarrow> (OutOfFuel, st'))))"

text \<open>
  The state after a sequence of calls of \<^verbatim>\<open>backupItem\<close> against one backup, whatever
  the caller does with the errors they return.
\<close>

fun backupItem_calls ::
  "itemBackupper \<Rightarrow> nat \<Rightarrow> (Unstructured \<times> GroupResource) list \<Rightarrow> bstate \<Rightarrow> bstate" where
  "backupItem_calls ib fuel [] st = st"
| "backupItem_calls ib fuel ((obj, groupResource) # rest) st =
     backupItem_calls ib fuel rest (snd (backupItem ib fuel obj groupResource st))"

text \<open>
  \<^verbatim>\<open>tarWriterItemStorage.Write\<close> (tar\_writer.go): the header carries the time the
  storage was given, not the clock.
\<close>

record tarWriterItemStorage =
  tws_modTime :: nat
  tws_WriteHeader :: "tar_entry list \<Rightarrow> tar_Header \<Rightarrow> error option"
  tws_Write :: "tar_entry list \<Rightarrow> string \<Rightarrow> error option"

definition tarWriterItemStorage_Write ::
  "tarWriterItemStorage \<Rightarrow> string \<Rightarrow> string \<Rightarrow> tar_entry list \<Rightarrow> error option \<times> tar_entry list" where
  "tarWriterItemStorage_Write t path item w =
    (let hdr = \<lparr> hdr_Name = path,
                 hdr_Size = int (length item),
                 hdr_Typeflag = TypeReg,
                 hdr_Mode = mode_0755,
                 hdr_ModTime = tws_modTime t \<rparr>
     in case tws_WriteHeader t w hdr of
          Some err \<Rightarrow> (Some err, w)
        | None \<Rightarrow>
            let w1 = w @ [\<lparr> ent_hdr = hdr, ent_data = [] \<rparr>]
            in case tws_Write t w1 item of
                 Some err \<Rightarrow> (Some err, w1)
               | None \<Rightarrow> (None, w @ [\<lparr> ent_hdr = hdr, ent_data = item \<rparr>]))"


section \<open>pkg/backup: the loop of Backup\<close>

text \<open>
  The loop of \<^verbatim>\<open>kubernetesBackupper.Backup\<close> over the groups of the discovery
  helper. The group backupper comes from a factory behind an interface and its code is
  not among the sources, so \<open>gb\<close> is a parameter: what \<^verbatim>\<open>gb.backupGroup\<close> returns
  for a group and the state it leaves. \<open>errs\<close> is the slice the loop appends to.
\<close>

fun backupGroups ::
  "('g \<Rightarrow> bstate \<Rightarrow> outcome \<times> bstate) \<Rightarrow> 'g list \<Rightarrow> error list \<Rightarrow> bstate
     \<Rightarrow> error list option \<times> bstate" where
  "backupGroups gb [] errs st = (Some errs, st)"
| "backupGroups gb (g # rest) errs st =
    (case gb g st of
       (Returned (Some err), st') \<Rightarrow> backupGroups gb rest (errs @ [err]) st'
     | (Returned None, st') \<Rightarrow> backupGroups gb rest errs st'
     | (OutOfFuel, st') \<Rightarrow> (None, st'))"

text \<open>
  \<^verbatim>\<open>Backup\<close>: \<open>hooksErr\<close> and \<open>actionsErr\<close> are the errors of
  \<^verbatim>\<open>getResourceHooks\<close> and \<^verbatim>\<open>resolveActions\<close> (nil when they succeed), after
  which the groups are walked from a state with nothing backed up and nothing written,
  and the errors are aggregated and flattened.
\<close>

definition Backup ::
  "error option \<Rightarrow> error option \<Rightarrow> ('g \<Rightarrow> bstate \<Rightarrow> outcome \<times> bstate) \<Rightarrow> 'g list \<Rightarrow> bstate
     \<Rightarrow> outcome \<times> bstate" where
  "Backup hooksErr actionsErr gb groups st0 =
    (case hooksErr of
       Some err \<Rightarrow> (Returned (Some err), st0)
     | None \<Rightarrow>
         let st1 = st0\<lparr>st_backedUpItems := {}\<rparr>
         in case actionsErr of
              Some err \<Rightarrow> (Returned (Some err), st1)
            | None \<Rightarrow>
                (case backupGroups gb groups [] st1 of
                   (None, st') \<Rightarrow> (OutOfFuel, st')
                 | (Some errs, st') \<Rightarrow> (Returned (Flatten (NewAggregate errs)), st')))"

text \<open>The errors an error value stands for: those of an aggregate, or the error itself.\<close>

definition errorsOf :: "error option \<Rightarrow> error list" where
  "errorsOf r =
     (case r of
        None \<Rightarrow> []
      | Some (Aggregate es) \<Rightarrow> es
      | Some e \<Rightarrow> [e])"


section \<open>pkg/restic: the restore command\<close>

definition RestoreCommand ::
  "string \<Rightarrow> string \<Rightarrow> string \<Rightarrow> string \<Rightarrow> string \<Rightarrow> restic_Command" where
  "RestoreCommand repoPrefix repo passwordFile podUID snapshotID =
     \<lparr> BaseName = [],
       Command = ''restore'',
       RepoPrefix = repoPrefix,
       Repo = repo,
       PasswordFile = passwordFile,
       Args = [snapshotID],
       ExtraFlags = [''--target=/restores/'' @ podUID] \<rparr>"


section \<open>pkg/controller: the pod volume restore controller\<close>

text \<open>
  Modelled from the spec: the phase constants of package \<^verbatim>\<open>api\<close> are not among the
  sources; the spec names the phases New, InProgress, Completed and Failed. A phase is a
  Go string, and the empty string is the phase of an object that has none yet.
\<close>

definition PodVolumeRestorePhaseNew :: string where
  "PodVolumeRestorePhaseNew = ''New''"

definition PodVolumeRestorePhaseInProgress :: string where
  "PodVolumeRestorePhaseInProgress = ''InProgress''"

definition PodVolumeRestorePhaseCompleted :: string where
  "PodVolumeRestorePhaseCompleted = ''Completed''"

definition PodVolumeRestorePhaseFailed :: string where
  "PodVolumeRestorePhaseFailed = ''Failed''"

record ObjectReference =
  ref_Namespace :: string
  ref_Name :: string
  ref_UID :: string

record OwnerReference =
  owner_Controller :: "bool option"
  owner_UID :: string

record PodVolumeRestore =
  pvr_Namespace :: string
  pvr_Name :: string
  pvr_OwnerReferences :: "OwnerReference list"
  pvr_Pod :: ObjectReference
  pvr_Volume :: string
  pvr_RepoPrefix :: string
  pvr_SnapshotID :: string
  pvr_Phase :: string
  pvr_Message :: string

text \<open>
  A pod as the controller reads it: its UID, its node, the names of its init containers
  and, for each init container status, whether \<^verbatim>\<open>State.Running\<close> is set.
\<close>

record Pod =
  pod_UID :: string
  pod_NodeName :: string
  pod_InitContainers :: "string list"
  pod_InitContainerRunning :: "bool list"

text \<open>
  \<^verbatim>\<open>isPodWaiting\<close>; \<open>initContainer\<close> is the constant \<^verbatim>\<open>restic.InitContainer\<close>,
  which is not among the sources.
\<close>

definition isPodWaiting :: "string \<Rightarrow> Pod \<Rightarrow> bool" where
  "isPodWaiting initContainer pod =
     (length (pod_InitContainers pod) = 0
      \<or> hd (pod_InitContainers pod) \<noteq> initContainer
      \<or> length (pod_InitContainerRunning pod) = 0
      \<or> \<not> hd (pod_InitContainerRunning pod))"

definition shouldProcessPod :: "string \<Rightarrow> Pod \<Rightarrow> string \<Rightarrow> bool" where
  "shouldProcessPod initContainer pod nodeName =
     (if pod_NodeName pod \<noteq> nodeName then False
      else if \<not> isPodWaiting initContainer pod then False
      else True)"

definition shouldProcessPVR :: "PodVolumeRestore \<Rightarrow> bool" where
  "shouldProcessPVR pvr =
     (if pvr_Phase pvr \<noteq> [] \<and> pvr_Phase pvr \<noteq> PodVolumeRestorePhaseNew then False
      else True)"

datatype 'a lister_result = Found 'a | NotFound | ListerError error

text \<open>
  What the controller reaches outside itself: the listers (informer caches), the helpers
  of other packages, and the two subprocesses. A subprocess that fails yields its error
  and, when the error is an \<^verbatim>\<open>exec.ExitError\<close>, the captured standard error.
  \<open>cw_patchErr n\<close> is the error of the \<open>n\<close>-th \<^verbatim>\<open>Patch\<close> request sent to the API
  server (nil when it is accepted).
\<close>

record controller_world =
  cw_initContainer :: string
  cw_nodeName :: string
  cw_podLister :: "string \<Rightarrow> string \<Rightarrow> error + Pod"
  cw_pvrLister_List :: "string \<Rightarrow> error + PodVolumeRestore list"
  cw_pvrLister_Get :: "string \<Rightarrow> string \<Rightarrow> PodVolumeRestore lister_result"
  cw_GetVolumeDirectory :: "Pod \<Rightarrow> string \<Rightarrow> error + string"
  cw_TempCredentialsFile :: "string \<Rightarrow> error + string"
  cw_Output :: "string list \<Rightarrow> (error \<times> string option) + string"
  cw_patchErr :: "nat \<Rightarrow> error option"

text \<open>
  \<^verbatim>\<open>pvrsToEnqueueForPod\<close>: the lister is asked for the restores labelled with the
  pod's UID (the selector built from that label always parses).
\<close>

definition pvrsToEnqueueForPod :: "controller_world \<Rightarrow> Pod \<Rightarrow> PodVolumeRestore list" where
  "pvrsToEnqueueForPod w pod =
     (if \<not> shouldProcessPod (cw_initContainer w) pod (cw_nodeName w) then []
      else case cw_pvrLister_List w (pod_UID pod) of
             Inl err \<Rightarrow> []
           | Inr pvrs \<Rightarrow> filter shouldProcessPVR pvrs)"

definition shouldEnqueuePVR :: "controller_world \<Rightarrow> PodVolumeRestore \<Rightarrow> bool" where
  "shouldEnqueuePVR w pvr =
     (if \<not> shouldProcessPVR pvr then False
      else case cw_podLister w (ref_Namespace (pvr_Pod pvr)) (ref_Name (pvr_Pod pvr)) of
             Inl err \<Rightarrow> False
           | Inr pod \<Rightarrow>
               if \<not> shouldProcessPod (cw_initContainer w) pod (cw_nodeName w) then False
               else True)"

text \<open>
  The API server's side of one PodVolumeRestore: the object as stored, the phases that
  accepted patches have written to it, oldest first, and the number of \<^verbatim>\<open>Patch\<close>
  requests received.
\<close>

record api_state =
  api_object :: PodVolumeRestore
  api_phases :: "string list"
  api_requests :: nat

text \<open>
  \<^verbatim>\<open>patchPodVolumeRestore\<close>: the JSON merge patch between the object before and
  after \<open>mutate\<close> holds the phase and the message where they differ; the server applies
  it to the object it stores and answers with the result. (Marshalling these objects and
  building the patch do not fail.)
\<close>

definition patchPodVolumeRestore ::
  "controller_world \<Rightarrow> PodVolumeRestore \<Rightarrow> (PodVolumeRestore \<Rightarrow> PodVolumeRestore) \<Rightarrow> api_state
     \<Rightarrow> (error + PodVolumeRestore) \<times> api_state" where
  "patchPodVolumeRestore w req mutate st =
    (let new = mutate req;
         st1 = st\<lparr>api_requests := Suc (api_requests st)\<rparr>
     in case cw_patchErr w (api_requests st) of
          Some err \<Rightarrow> (Inl (Wrapped ''error patching PodVolumeRestore'' err), st1)
        | None \<Rightarrow>
            let obj0 = api_object st1;
                obj1 = (if pvr_Phase new \<noteq> pvr_Phase req
                        then obj0\<lparr>pvr_Phase := pvr_Phase new\<rparr> else obj0);
                obj2 = (if pvr_Message new \<noteq> pvr_Message req
                        then obj1\<lparr>pvr_Message := pvr_Message new\<rparr> else obj1);
                phases = (if pvr_Phase new \<noteq> pvr_Phase req
                          then api_phases st1 @ [pvr_Phase new] else api_phases st1)
            in (Inr obj2, st1\<lparr>api_object := obj2, api_phases := phases\<rparr>))"

definition updatePodVolumeRestorePhaseFunc :: "string \<Rightarrow> PodVolumeRestore \<Rightarrow> PodVolumeRestore" where
  "updatePodVolumeRestorePhaseFunc phase r = r\<lparr>pvr_Phase := phase\<rparr>"

definition fail :: "controller_world \<Rightarrow> PodVolumeRestore \<Rightarrow> string \<Rightarrow> api_state \<Rightarrow> error option \<times> api_state" where
  "fail w req msg st =
    (case patchPodVolumeRestore w req
            (\<lambda>pvr. pvr\<lparr>pvr_Phase := PodVolumeRestorePhaseFailed, pvr_Message := msg\<rparr>) st of
       (Inl err, st') \<Rightarrow> (Some err, st')
     | (Inr r, st') \<Rightarrow> (None, st'))"

text \<open>\<^verbatim>\<open>err.Error()\<close>: the message of an error.\<close>

fun Error_string :: "error \<Rightarrow> string" where
  "Error_string (Err msg) = msg"
| "Error_string (Wrapped msg err) = msg @ '': '' @ Error_string err"
| "Error_string (Aggregate errs) = concat (map Error_string errs)"
| "Error_string (Panic msg) = msg"

text \<open>
  \<^verbatim>\<open>boolptr.IsSetToTrue\<close> is not among the sources; by its name, the pointer is set
  and points to true. The loop of \<^verbatim>\<open>processRestore\<close> picks the UID of the first
  owner that is a controller.
\<close>

fun restoreUIDOf :: "OwnerReference list \<Rightarrow> string" where
  "restoreUIDOf [] = []"
| "restoreUIDOf (owner # rest) =
     (if owner_Controller owner = Some True then owner_UID owner else restoreUIDOf rest)"

definition stderrOf :: "string option \<Rightarrow> string" where
  "stderrOf exitStderr = (case exitStderr of None \<Rightarrow> [] | Some s \<Rightarrow> s)"

text \<open>\<^verbatim>\<open>strings.Join\<close> with a single space.\<close>

fun join_space :: "string list \<Rightarrow> string" where
  "join_space [] = []"
| "join_space [x] = x"
| "join_space (x # y # ys) = x @ '' '' @ join_space (y # ys)"

text \<open>\<^verbatim>\<open>processRestore\<close>; the temporary credentials file is removed on the way out.\<close>

definition processRestore ::
  "controller_world \<Rightarrow> PodVolumeRestore \<Rightarrow> api_state \<Rightarrow> error option \<times> api_state" where
  "processRestore w req0 st0 =
    (case patchPodVolumeRestore w req0
            (updatePodVolumeRestorePhaseFunc PodVolumeRestorePhaseInProgress) st0 of
       (Inl err, st1) \<Rightarrow> (Some err, st1)
     | (Inr req, st1) \<Rightarrow>
         (case cw_podLister w (ref_Namespace (pvr_Pod req)) (ref_Name (pvr_Pod req)) of
            Inl err \<Rightarrow> fail w req (Error_string (Wrapped ''error getting pod'' err)) st1
          | Inr pod \<Rightarrow>
              (case cw_GetVolumeDirectory w pod (pvr_Volume req) of
                 Inl err \<Rightarrow>
                   fail w req
                     (Error_string (Wrapped ''error getting volume directory name'' err)) st1
               | Inr volumeDir \<Rightarrow>
                   (case cw_TempCredentialsFile w (ref_Namespace (pvr_Pod req)) of
                      Inl err \<Rightarrow>
                        fail w req
                          (Error_string
                             (Wrapped ''error creating temp restic credentials file'' err)) st1
                    | Inr file \<Rightarrow>
                        let resticCmd = RestoreCommand (pvr_RepoPrefix req)
                                          (ref_Namespace (pvr_Pod req)) file
                                          (ref_UID (pvr_Pod req)) (pvr_SnapshotID req)
                        in case cw_Output w (StringSlice resticCmd) of
                             Inl (err, exitStderr) \<Rightarrow>
                               fail w req
                                 (''error running restic restore, stderr='' @ stderrOf exitStderr
                                    @ '': '' @ Error_string err) st1
                           | Inr output \<Rightarrow>
                               let restoreUID = restoreUIDOf (pvr_OwnerReferences req);
                                   cmd = [''/bin/sh'', ''-c'',
                                          join_space [''/complete-restore.sh'',
                                            ref_UID (pvr_Pod req), volumeDir, restoreUID]]
                               in case cw_Output w cmd of
                                    Inl (err, exitStderr) \<Rightarrow>
                                      fail w req
                                        (''error running restic restore: '' @ Error_string err
                                           @ '': stderr='' @ stderrOf exitStderr) st1
                                  | Inr output' \<Rightarrow>
                                      (case patchPodVolumeRestore w req
                                              (updatePodVolumeRestorePhaseFunc
                                                 PodVolumeRestorePhaseCompleted) st1 of
                                         (Inl err, st2) \<Rightarrow> (Some err, st2)
                                       | (Inr r, st2) \<Rightarrow> (None, st2))))))"

text \<open>
  \<^verbatim>\<open>cache.SplitMetaNamespaceKey\<close>: a key without a slash is a name, a key with one
  slash a namespace and a name, anything else an error.
\<close>

fun split_slash :: "string \<Rightarrow> string list" where
  "split_slash [] = [[]]"
| "split_slash (c # cs) =
     (if c = CHR ''/'' then [] # split_slash cs
      else (case split_slash cs of
              [] \<Rightarrow> [[c]]
            | p # ps \<Rightarrow> (c # p) # ps))"

definition SplitMetaNamespaceKey :: "string \<Rightarrow> error + (string \<times> string)" where
  "SplitMetaNamespaceKey key =
     (case split_slash key of
        [name] \<Rightarrow> Inr ([], name)
      | [ns, name] \<Rightarrow> Inr (ns, name)
      | _ \<Rightarrow> Inl (Err ''unexpected key format''))"

text \<open>
  \<^verbatim>\<open>processQueueItem\<close>: the key is resolved against the lister and the copy of the
  object goes to \<^verbatim>\<open>processRestore\<close>.
\<close>

definition processQueueItem ::
  "controller_world \<Rightarrow> string \<Rightarrow> api_state \<Rightarrow> error option \<times> api_state" where
  "processQueueItem w key st =
    (case SplitMetaNamespaceKey key of
       Inl err \<Rightarrow> (Some (Wrapped ''error splitting queue key'' err), st)
     | Inr (ns, name) \<Rightarrow>
         (case cw_pvrLister_Get w ns name of
            NotFound \<Rightarrow> (None, st)
          | ListerError err \<Rightarrow> (Some (Wrapped ''error getting PodVolumeRestore'' err), st)
          | Found req \<Rightarrow> processRestore w req st))"

text \<open>The four outside steps of \<^verbatim>\<open>processRestore\<close> all succeed for a request.\<close>

definition restore_steps_succeed :: "controller_world \<Rightarrow> PodVolumeRestore \<Rightarrow> bool" where
  "restore_steps_succeed w req =
    (case cw_podLister w (ref_Namespace (pvr_Pod req)) (ref_Name (pvr_Pod req)) of
       Inl err \<Rightarrow> False
     | Inr pod \<Rightarrow>
         (case cw_GetVolumeDirectory w pod (pvr_Volume req) of
            Inl err \<Rightarrow> False
          | Inr volumeDir \<Rightarrow>
              (case cw_TempCredentialsFile w (ref_Namespace (pvr_Pod req)) of
                 Inl err \<Rightarrow> False
               | Inr file \<Rightarrow>
                   (case cw_Output w
                           (StringSlice (RestoreCommand (pvr_RepoPrefix req)
                              (ref_Namespace (pvr_Pod req)) file (ref_UID (pvr_Pod req))
                              (pvr_SnapshotID req))) of
                      Inl f \<Rightarrow> False
                    | Inr output \<Rightarrow>
                        (case cw_Output w
                                [''/bin/sh'', ''-c'',
                                 join_space [''/complete-restore.sh'', ref_UID (pvr_Pod req),
                                   volumeDir, restoreUIDOf (pvr_OwnerReferences req)]] of
                           Inl f \<Rightarrow> False
                         | Inr output' \<Rightarrow> True)))))"

section \<open>Notions used to state the properties\<close>

text \<open>The path at which the item with a given key is written, and the paths in the archive.\<close>

definition keyPath :: "itemKey \<Rightarrow> string" where
  "keyPath k = itemFilePath (key_resource k) (key_namespace k) (key_name k)"

definition itemKeyOf :: "GroupResource \<Rightarrow> ObjectMeta \<Rightarrow> itemKey" where
  "itemKeyOf groupResource metadata =
     \<lparr> key_resource = GroupResource_String groupResource,
       key_namespace = meta_Namespace metadata,
       key_name = meta_Name metadata \<rparr>"

definition tarNames :: "bstate \<Rightarrow> string list" where
  "tarNames st = map (\<lambda>e. hdr_Name (ent_hdr e)) (st_tar st)"

text \<open>
  \<open>wrote_new_keys st st'\<close>: from \<open>st\<close> to \<open>st'\<close> the set of backed-up keys has only
  grown, and the entries added to the archive are the entries of a duplicate-free list
  of keys that were recorded on the way.
\<close>

definition wrote_new_keys :: "bstate \<Rightarrow> bstate \<Rightarrow> bool" where
  "wrote_new_keys st st' =
     (st_backedUpItems st \<subseteq> st_backedUpItems st'
      \<and> (\<exists>ks. distinct ks
            \<and> set ks \<subseteq> st_backedUpItems st' - st_backedUpItems st
            \<and> tarNames st' = tarNames st @ map keyPath ks))"

text \<open>
  \<open>archive_dedup st\<close>: the archive holds the entries of a duplicate-free list of keys,
  all of them recorded as backed up.
\<close>

definition archive_dedup :: "bstate \<Rightarrow> bool" where
  "archive_dedup st =
     (\<exists>ks. distinct ks \<and> set ks \<subseteq> st_backedUpItems st \<and> tarNames st = map keyPath ks)"

text \<open>The state in which \<^verbatim>\<open>Backup\<close> starts: nothing backed up, nothing written.\<close>

definition initial_state :: "Backup \<Rightarrow> bstate" where
  "initial_state backup =
     \<lparr> st_backup = backup, st_backedUpItems = {}, st_tar = [], st_calls = [],
       st_clockReads = 0 \<rparr>"

text \<open>
  The three tests of \<^verbatim>\<open>backupItem\<close> that exclude an item (namespace, cluster scope,
  resource) all let the item through.
\<close>

definition item_included :: "itemBackupper \<Rightarrow> GroupResource \<Rightarrow> ObjectMeta \<Rightarrow> bstate \<Rightarrow> bool" where
  "item_included ib groupResource metadata st =
     ((meta_Namespace metadata = [] \<or> ib_namespaces ib (meta_Namespace metadata))
      \<and> (meta_Namespace metadata \<noteq> [] \<or> groupResource = Namespaces
           \<or> spec_IncludeClusterResources (st_backup st) \<noteq> Some False)
      \<and> ib_resources ib (GroupResource_String groupResource))"

text \<open>The arguments of the calls of \<^verbatim>\<open>CreateSnapshot\<close> among a list of calls.\<close>

fun createSnapshotCalls :: "call list \<Rightarrow> (string \<times> string \<times> (string \<rightharpoonup> string)) list" where
  "createSnapshotCalls [] = []"
| "createSnapshotCalls (CreateSnapshotCall volumeID zone tags # cs) =
     (volumeID, zone, tags) # createSnapshotCalls cs"
| "createSnapshotCalls (c # cs) = createSnapshotCalls cs"
section \<open>Example inputs\<close>




text \<open>
  A small cluster: the namespace \<open>ns1\<close>, a pod \<open>p\<close> and a claim \<open>c\<close> in it, and
  the persistent volume \<open>pv1\<close>. One custom action names the claim as an additional item
  of the pod. The clock advances by one at every reading.
\<close>

definition ex_backup :: Backup where
  "ex_backup =
     \<lparr> backup_Name = ''b1'', spec_IncludeClusterResources = None,
       spec_SnapshotVolumes = None, status_VolumeBackups = None \<rparr>"

definition ex_object :: "string \<Rightarrow> string \<Rightarrow> string \<Rightarrow> Unstructured" where
  "ex_object namespace name content =
     \<lparr> obj_meta = Some \<lparr> meta_Namespace = namespace, meta_Name = name,
                         meta_Labels = Map.empty \<rparr>,
       obj_content = content \<rparr>"

definition gr_pods :: GroupResource where
  "gr_pods = \<lparr> gr_Group = [], gr_Resource = ''pods'' \<rparr>"

definition gr_pvcs :: GroupResource where
  "gr_pvcs = \<lparr> gr_Group = [], gr_Resource = ''persistentvolumeclaims'' \<rparr>"

definition ex_ns :: Unstructured where
  "ex_ns = ex_object [] ''ns1'' ''namespace''"

definition ex_pod :: Unstructured where
  "ex_pod = ex_object ''ns1'' ''p'' ''pod''"

definition ex_pvc :: Unstructured where
  "ex_pvc = ex_object ''ns1'' ''c'' ''claim''"

definition ex_pv :: Unstructured where
  "ex_pv = ex_object [] ''pv1'' ''volume''"

definition ex_action :: resolvedAction where
  "ex_action =
     \<lparr> act_resourceIncludesExcludes = (\<lambda>r. True),
       act_namespaceIncludesExcludes = (\<lambda>n. True),
       act_selector = (\<lambda>l. True),
       act_Execute = (\<lambda>obj backup.
          if obj_content obj = ''pod''
          then Inr (obj, [\<lparr> ri_GroupResource = gr_pvcs, ri_Namespace = ''ns1'',
                             ri_Name = ''c'' \<rparr>])
          else Inr (obj, [])) \<rparr>"

definition ex_svc :: SnapshotService where
  "ex_svc =
     \<lparr> svc_GetVolumeID = (\<lambda>pv. Inr ''vol-1''),
       svc_CreateSnapshot = (\<lambda>volumeID zone tags. Inl (Err ''quota exceeded'')),
       svc_GetVolumeInfo = (\<lambda>volumeID zone. Inr (''gp2'', None)) \<rparr>"

definition ex_ib :: itemBackupper where
  "ex_ib =
     \<lparr> ib_namespaces = (\<lambda>n. True),
       ib_resources = (\<lambda>r. True),
       ib_actions = [ex_action],
       ib_handleHooks = (\<lambda>gr obj phase. None),
       ib_ResourceFor = (\<lambda>gr. Inr gr),
       ib_ClientForGroupVersionResource = (\<lambda>gr namespace.
          Inr (\<lambda>name. if name = ''c'' then Inr ex_pvc else Inl (Err ''not found''))),
       ib_snapshotService = Some ex_svc,
       ib_json_Marshal = (\<lambda>obj. Inr (obj_content obj)),
       ib_tw_WriteHeader = (\<lambda>w hdr. None),
       ib_tw_Write = (\<lambda>w bytes. None),
       ib_clock = (\<lambda>n. 100 + n) \<rparr>"

text \<open>The same backupper with a pre hook that fails on the pod.\<close>

definition ex_ib_hook :: itemBackupper where
  "ex_ib_hook =
     ex_ib\<lparr>ib_handleHooks := (\<lambda>gr obj phase.
        if phase = hookPhasePre \<and> obj_content obj = ''pod''
        then Some (Err ''hook exited with 1'') else None)\<rparr>"

text \<open>A group backupper for the examples: every group is one item.\<close>

definition ex_gb :: "Unstructured \<times> GroupResource \<Rightarrow> bstate \<Rightarrow> outcome \<times> bstate" where
  "ex_gb g st = backupItem ex_ib_hook (Suc 0) (fst g) (snd g) st"


section \<open>The archive holds every key at most once\<close>

declare backupItem.simps [simp del]

lemma wrote_new_keys_refl: "wrote_new_keys st st"
  unfolding wrote_new_keys_def
  by (intro conjI exI [of _ "[]"]) simp_all

lemma wrote_new_keys_trans:
  assumes a: "wrote_new_keys st0 st1" and b: "wrote_new_keys st1 st2"
  shows "wrote_new_keys st0 st2"
proof -
  from a obtain ks1 where s1: "st_backedUpItems st0 \<subseteq> st_backedUpItems st1"
    and d1: "distinct ks1" and k1: "set ks1 \<subseteq> st_backedUpItems st1 - st_backedUpItems st0"
    and t1: "tarNames st1 = tarNames st0 @ map keyPath ks1"
    unfolding wrote_new_keys_def by blast
  from b obtain ks2 where s2: "st_backedUpItems st1 \<subseteq> st_backedUpItems st2"
    and d2: "distinct ks2" and k2: "set ks2 \<subseteq> st_backedUpItems st2 - st_backedUpItems st1"
    and t2: "tarNames st2 = tarNames st1 @ map keyPath ks2"
    unfolding wrote_new_keys_def by blast
  have "distinct (ks1 @ ks2)"
    using d1 d2 k1 k2 by auto
  moreover have "set (ks1 @ ks2) \<subseteq> st_backedUpItems st2 - st_backedUpItems st0"
    using k1 k2 s1 s2 by auto
  moreover have "tarNames st2 = tarNames st0 @ map keyPath (ks1 @ ks2)"
    using t1 t2 by simp
  moreover have "st_backedUpItems st0 \<subseteq> st_backedUpItems st2"
    using s1 s2 by blast
  ultimately show ?thesis
    unfolding wrote_new_keys_def by blast
qed

lemma logCall_fields [simp]:
  "st_backedUpItems (logCall c st) = st_backedUpItems st"
  "st_tar (logCall c st) = st_tar st"
  "st_backup (logCall c st) = st_backup st"
  "st_clockReads (logCall c st) = st_clockReads st"
  "st_calls (logCall c st) = st_calls st @ [c]"
  by (simp_all add: logCall_def)

lemma recordVolumeBackup_fields [simp]:
  "st_backedUpItems (recordVolumeBackup n i st) = st_backedUpItems st"
  "st_tar (recordVolumeBackup n i st) = st_tar st"
  "st_clockReads (recordVolumeBackup n i st) = st_clockReads st"
  "st_calls (recordVolumeBackup n i st) = st_calls st"
  by (simp_all add: recordVolumeBackup_def Let_def)

lemma takePVSnapshot_keeps:
  "st_backedUpItems (snd (takePVSnapshot svc pv st)) = st_backedUpItems st
   \<and> st_tar (snd (takePVSnapshot svc pv st)) = st_tar st
   \<and> st_clockReads (snd (takePVSnapshot svc pv st)) = st_clockReads st"
  by (simp add: takePVSnapshot_def Let_def split: sum.splits prod.splits)

lemma writeItem_effect:
  "st_backedUpItems (snd (writeItem ib obj gr ns name st)) = st_backedUpItems st
   \<and> (tarNames (snd (writeItem ib obj gr ns name st)) = tarNames st
      \<or> tarNames (snd (writeItem ib obj gr ns name st)) =
          tarNames st @ [itemFilePath (GroupResource_String gr) ns name])"
  by (simp add: writeItem_def Let_def tarNames_def split: sum.splits option.splits)

lemma snapshotStep_state:
  "snd (snapshotStep ib obj gr errs st) =
     (if gr = PersistentVolumes
      then (case ib_snapshotService ib of
              None \<Rightarrow> st
            | Some svc \<Rightarrow> snd (takePVSnapshot svc obj st))
      else st)"
  by (simp add: snapshotStep_def split: option.splits prod.splits)

lemma snapshotStep_keeps:
  "st_backedUpItems (snd (snapshotStep ib obj gr errs st)) = st_backedUpItems st
   \<and> st_tar (snd (snapshotStep ib obj gr errs st)) = st_tar st
   \<and> st_clockReads (snd (snapshotStep ib obj gr errs st)) = st_clockReads st"
  by (simp add: snapshotStep_state takePVSnapshot_keeps split: option.splits)

lemma backupItem_finish_cases:
  "backupItem_finish ib obj gr ns name aerr st =
     (let snap = snapshotStep ib obj gr (case aerr of None \<Rightarrow> [] | Some err \<Rightarrow> [err]) st;
          st2 = logCall (HookCall gr obj hookPhasePost) (snd snap);
          errs = fst snap @ (case ib_handleHooks ib gr obj hookPhasePost of
                               Some err \<Rightarrow> [err] | None \<Rightarrow> [])
      in if errs \<noteq> [] then (Some (Aggregate errs), st2)
         else writeItem ib obj gr ns name st2)"
  by (simp add: backupItem_finish_def Let_def NewAggregate_def split: option.splits)

lemma backupItem_finish_effect:
  "st_backedUpItems (snd (backupItem_finish ib obj gr ns name aerr st)) = st_backedUpItems st
   \<and> (tarNames (snd (backupItem_finish ib obj gr ns name aerr st)) = tarNames st
      \<or> tarNames (snd (backupItem_finish ib obj gr ns name aerr st)) =
          tarNames st @ [itemFilePath (GroupResource_String gr) ns name])"
proof -
  define snap where "snap = snapshotStep ib obj gr (case aerr of None \<Rightarrow> [] | Some err \<Rightarrow> [err]) st"
  define st2 where "st2 = logCall (HookCall gr obj hookPhasePost) (snd snap)"
  have keep: "st_backedUpItems st2 = st_backedUpItems st \<and> tarNames st2 = tarNames st"
    using snapshotStep_keeps [of ib obj gr _ st]
    by (simp add: st2_def snap_def tarNames_def)
  have "snd (backupItem_finish ib obj gr ns name aerr st) = st2
        \<or> snd (backupItem_finish ib obj gr ns name aerr st) = snd (writeItem ib obj gr ns name st2)"
    by (simp add: backupItem_finish_cases Let_def st2_def snap_def)
  then show ?thesis
    using keep writeItem_effect [of ib obj gr ns name st2] by auto
qed

lemma backupItem_begin_Inl:
  "backupItem_begin ib obj gr st = Inl (err, st') \<Longrightarrow>
     st_backedUpItems st \<subseteq> st_backedUpItems st' \<and> tarNames st' = tarNames st"
  by (auto simp: backupItem_begin_def Let_def tarNames_def
           split: sum.splits if_splits option.splits)

lemma backupItem_begin_Inr:
  "backupItem_begin ib obj gr st = Inr (metadata, st2) \<Longrightarrow>
     itemKeyOf gr metadata \<notin> st_backedUpItems st
     \<and> st_backedUpItems st2 = insert (itemKeyOf gr metadata) (st_backedUpItems st)
     \<and> tarNames st2 = tarNames st"
  by (auto simp: backupItem_begin_def Let_def tarNames_def itemKeyOf_def
           split: sum.splits if_splits option.splits)

lemma wrote_new_keys_same_tar:
  "st_backedUpItems st \<subseteq> st_backedUpItems st' \<Longrightarrow> tarNames st' = tarNames st \<Longrightarrow>
     wrote_new_keys st st'"
  unfolding wrote_new_keys_def
  by (intro conjI exI [of _ "[]"]) simp_all

lemma wrote_new_keys_item:
  assumes fresh: "key \<notin> st_backedUpItems st"
    and ins: "st_backedUpItems st2 = insert key (st_backedUpItems st)"
    and tar2: "tarNames st2 = tarNames st"
    and rec: "wrote_new_keys st2 st3"
    and same: "st_backedUpItems st4 = st_backedUpItems st3"
    and tar4: "tarNames st4 = tarNames st3 \<or> tarNames st4 = tarNames st3 @ [keyPath key]"
  shows "wrote_new_keys st st4"
proof -
  from rec obtain ks where s: "st_backedUpItems st2 \<subseteq> st_backedUpItems st3"
    and d: "distinct ks" and k: "set ks \<subseteq> st_backedUpItems st3 - st_backedUpItems st2"
    and t: "tarNames st3 = tarNames st2 @ map keyPath ks"
    unfolding wrote_new_keys_def by blast
  have sub: "st_backedUpItems st \<subseteq> st_backedUpItems st4"
    using ins s same by auto
  from tar4 show ?thesis
  proof
    assume "tarNames st4 = tarNames st3"
    then have "tarNames st4 = tarNames st @ map keyPath ks"
      using t tar2 by simp
    moreover have "set ks \<subseteq> st_backedUpItems st4 - st_backedUpItems st"
      using k ins same by auto
    ultimately show ?thesis
      unfolding wrote_new_keys_def using sub d by blast
  next
    assume "tarNames st4 = tarNames st3 @ [keyPath key]"
    then have "tarNames st4 = tarNames st @ map keyPath (ks @ [key])"
      using t tar2 by simp
    moreover have "distinct (ks @ [key])"
      using d k ins by auto
    moreover have "set (ks @ [key]) \<subseteq> st_backedUpItems st4 - st_backedUpItems st"
      using k ins same s fresh by auto
    ultimately show ?thesis
      unfolding wrote_new_keys_def using sub by blast
  qed
qed

lemma backup_wrote_new_keys:
  "wrote_new_keys st (snd (backupItem ib fuel obj gr st))"
  "wrote_new_keys st (snd (executeActions ib fuel acts obj gr name ns md st))"
  "wrote_new_keys st (snd (backupAdditionalItems ib fuel ais st))"
proof (induction ib fuel obj gr st and ib fuel acts obj gr name ns md st and ib fuel ais st
       rule: backupItem_executeActions_backupAdditionalItems.induct)
  case (1 ib fuel obj groupResource st)
  show ?case
  proof (cases "backupItem_begin ib obj groupResource st")
    case (Inl r)
    obtain err st' where r: "r = (err, st')" by (cases r)
    have "snd (backupItem ib fuel obj groupResource st) = st'"
      using Inl r by (simp add: backupItem.simps)
    then show ?thesis
      using backupItem_begin_Inl [of ib obj groupResource st err st'] Inl r
      by (simp add: wrote_new_keys_same_tar)
  next
    case (Inr r)
    obtain metadata st2 where r: "r = (metadata, st2)" by (cases r)
    let ?ea = "executeActions ib fuel (ib_actions ib) obj groupResource
                 (meta_Name metadata) (meta_Namespace metadata) metadata st2"
    obtain oc st3 where ea: "?ea = (oc, st3)" by (cases ?ea)
    have ih: "wrote_new_keys st2 st3"
      using "1.IH" [OF Inr r [symmetric]] ea by simp
    have b: "itemKeyOf groupResource metadata \<notin> st_backedUpItems st
       \<and> st_backedUpItems st2 = insert (itemKeyOf groupResource metadata) (st_backedUpItems st)
       \<and> tarNames st2 = tarNames st"
      using backupItem_begin_Inr [of ib obj groupResource st metadata st2] Inr r by simp
    show ?thesis
    proof (cases oc)
      case OutOfFuel
      then have "snd (backupItem ib fuel obj groupResource st) = st3"
        using Inr r ea by (simp add: backupItem.simps)
      then show ?thesis
        using wrote_new_keys_item [of "itemKeyOf groupResource metadata" st st2 st3 st3] b ih
        by simp
    next
      case (Returned actionErr)
      let ?fin = "backupItem_finish ib obj groupResource (meta_Namespace metadata)
                    (meta_Name metadata) actionErr st3"
      have res: "snd (backupItem ib fuel obj groupResource st) = snd ?fin"
        using Inr r ea Returned by (simp add: backupItem.simps split: prod.splits)
      have fin: "st_backedUpItems (snd ?fin) = st_backedUpItems st3
         \<and> (tarNames (snd ?fin) = tarNames st3
            \<or> tarNames (snd ?fin) = tarNames st3 @ [keyPath (itemKeyOf groupResource metadata)])"
        using backupItem_finish_effect [of ib obj groupResource "meta_Namespace metadata"
                "meta_Name metadata" actionErr st3]
        by (simp add: keyPath_def itemKeyOf_def)
      show ?thesis
        using wrote_new_keys_item [of "itemKeyOf groupResource metadata" st st2 st3 "snd ?fin"]
              b ih fin res
        by simp
    qed
  qed
next
  case (2 ib fuel obj groupResource name namespace metadata st)
  show ?case by (simp add: wrote_new_keys_refl)
next
  case (3 ib fuel action rest obj groupResource name namespace metadata st)
  show ?case
  proof (cases "actionApplies action groupResource namespace metadata")
    case False
    then show ?thesis using "3.IH"(1) by simp
  next
    case True
    show ?thesis
    proof (cases "act_Execute action obj (st_backup st)")
      case (Inl err)
      then show ?thesis using True by (simp add: wrote_new_keys_refl)
    next
      case (Inr r)
      obtain updatedItem additional where r: "r = (updatedItem, additional)" by (cases r)
      obtain oc st' where ba: "backupAdditionalItems ib fuel additional st = (oc, st')"
        by (cases "backupAdditionalItems ib fuel additional st")
      have nn: "\<not> \<not> actionApplies action groupResource namespace metadata"
        using True by simp
      have ih1: "wrote_new_keys st st'"
        using "3.IH"(2) [OF nn Inr r [symmetric]] ba by simp
      have unfold: "executeActions ib fuel (action # rest) obj groupResource name namespace metadata st =
          (case oc of
             Returned None \<Rightarrow>
               executeActions ib fuel rest updatedItem groupResource name namespace metadata st'
           | Returned (Some err) \<Rightarrow> (Returned (Some err), st')
           | OutOfFuel \<Rightarrow> (OutOfFuel, st'))"
        using True Inr r ba by simp
      show ?thesis
      proof (cases oc)
        case OutOfFuel
        then show ?thesis using unfold ih1 by simp
      next
        case (Returned e)
        show ?thesis
        proof (cases e)
          case (Some err)
          then show ?thesis using unfold ih1 Returned by simp
        next
          case None
          have "wrote_new_keys st'
                  (snd (executeActions ib fuel rest updatedItem groupResource name namespace metadata st'))"
            using "3.IH"(3) [OF nn Inr r [symmetric] ba [symmetric] Returned None] .
          then show ?thesis
            using unfold Returned None ih1 wrote_new_keys_trans by simp
        qed
      qed
    qed
  qed
next
  case (4 ib fuel st)
  show ?case by (simp add: wrote_new_keys_refl)
next
  case (5 ib fuel additionalItem rest st)
  show ?case
  proof (cases "getAdditionalItem ib additionalItem")
    case (Inl err)
    then show ?thesis by (simp add: wrote_new_keys_refl)
  next
    case (Inr r)
    obtain item gr where r: "r = (item, gr)" by (cases r)
    show ?thesis
    proof (cases fuel)
      case 0
      then show ?thesis using Inr r by (simp add: wrote_new_keys_refl)
    next
      case (Suc fuel')
      obtain oc st' where bi: "backupItem ib fuel' item gr st = (oc, st')"
        by (cases "backupItem ib fuel' item gr st")
      have ih1: "wrote_new_keys st st'"
        using "5.IH"(1) [OF Inr r [symmetric] Suc] bi by simp
      have unfold: "backupAdditionalItems ib fuel (additionalItem # rest) st =
          (case oc of
             Returned None \<Rightarrow> backupAdditionalItems ib fuel rest st'
           | Returned (Some err) \<Rightarrow> (Returned (Some err), st')
           | OutOfFuel \<Rightarrow> (OutOfFuel, st'))"
        using Inr r bi unfolding Suc by simp
      show ?thesis
      proof (cases oc)
        case OutOfFuel
        then show ?thesis using unfold ih1 by simp
      next
        case (Returned e)
        show ?thesis
        proof (cases e)
          case (Some err)
          then show ?thesis using unfold ih1 Returned by simp
        next
          case None
          have "wrote_new_keys st' (snd (backupAdditionalItems ib fuel rest st'))"
            using "5.IH"(2) [OF Inr r [symmetric] Suc bi [symmetric] Returned None] .
          then show ?thesis
            using unfold Returned None ih1 wrote_new_keys_trans by simp
        qed
      qed
    qed
  qed
qed

text \<open>The definitions unfolded to run the model on the example inputs.\<close>

lemmas ex_defs = ex_backup_def ex_object_def gr_pods_def gr_pvcs_def ex_ns_def ex_pod_def ex_pvc_def
  ex_pv_def ex_action_def ex_svc_def ex_ib_def ex_ib_hook_def

lemmas model_defs = backupItem.simps backupItem_begin_def backupItem_finish_def snapshotStep_def
  takePVSnapshot_def writeItem_def actionApplies_def getAdditionalItem_def meta_Accessor_def
  logCall_def recordVolumeBackup_def NewAggregate_def itemFilePath_def filepath_Join_def
  GroupResource_String_def Namespaces_def PersistentVolumes_def ResourcesDir_def
  NamespaceScopedDir_def ClusterScopedDir_def initial_state_def Let_def TypeReg_def mode_0755_def
  snapshotTags_def go_lookup_def zoneLabel_def

lemma wrote_new_keys_subset:
  "wrote_new_keys st st' \<Longrightarrow> st_backedUpItems st \<subseteq> st_backedUpItems st'"
  by (simp add: wrote_new_keys_def)

lemma archive_dedup_step:
  assumes a: "archive_dedup st" and w: "wrote_new_keys st st'"
  shows "archive_dedup st'"
proof -
  from a obtain ks where d: "distinct ks" and k: "set ks \<subseteq> st_backedUpItems st"
    and t: "tarNames st = map keyPath ks"
    unfolding archive_dedup_def by blast
  from w obtain ks' where s: "st_backedUpItems st \<subseteq> st_backedUpItems st'"
    and d': "distinct ks'" and k': "set ks' \<subseteq> st_backedUpItems st' - st_backedUpItems st"
    and t': "tarNames st' = tarNames st @ map keyPath ks'"
    unfolding wrote_new_keys_def by blast
  have "distinct (ks @ ks')" using d d' k k' by auto
  moreover have "set (ks @ ks') \<subseteq> st_backedUpItems st'" using k k' s by auto
  moreover have "tarNames st' = map keyPath (ks @ ks')" using t t' by simp
  ultimately show ?thesis unfolding archive_dedup_def by blast
qed

lemma archive_dedup_initial: "archive_dedup (initial_state backup)"
  unfolding archive_dedup_def
  by (intro exI [of _ "[]"]) (simp add: initial_state_def tarNames_def)

lemma archive_dedup_distinct:
  assumes a: "archive_dedup st" and i: "inj_on keyPath (st_backedUpItems st)"
  shows "distinct (tarNames st)"
proof -
  from a obtain ks where d: "distinct ks" and k: "set ks \<subseteq> st_backedUpItems st"
    and t: "tarNames st = map keyPath ks"
    unfolding archive_dedup_def by blast
  have "inj_on keyPath (set ks)"
    using i k by (rule inj_on_subset)
  then show ?thesis
    using d t by (simp add: distinct_map)
qed

lemma wrote_new_keys_calls:
  "wrote_new_keys st (backupItem_calls ib fuel items st)"
proof (induction items arbitrary: st)
  case Nil
  show ?case by (simp add: wrote_new_keys_refl)
next
  case (Cons item items)
  obtain obj gr where item: "item = (obj, gr)" by (cases item)
  have "wrote_new_keys st (snd (backupItem ib fuel obj gr st))"
    by (rule backup_wrote_new_keys(1))
  moreover have "wrote_new_keys (snd (backupItem ib fuel obj gr st))
                   (backupItem_calls ib fuel items (snd (backupItem ib fuel obj gr st)))"
    by (rule Cons.IH)
  ultimately show ?case
    using item wrote_new_keys_trans by simp
qed

lemma backupItem_begin_backed_up:
  "meta_Accessor obj = Inr metadata \<Longrightarrow> itemKeyOf gr metadata \<in> st_backedUpItems st \<Longrightarrow>
     backupItem_begin ib obj gr st = Inl (None, st)"
  by (auto simp: backupItem_begin_def Let_def itemKeyOf_def)

lemma backupItem_already_backed_up:
  "meta_Accessor obj = Inr metadata \<Longrightarrow> itemKeyOf gr metadata \<in> st_backedUpItems st \<Longrightarrow>
     backupItem ib fuel obj gr st = (Returned None, st)"
  by (simp add: backupItem.simps backupItem_begin_backed_up)

lemma backupItem_begin_new:
  "meta_Accessor obj = Inr metadata \<Longrightarrow> item_included ib gr metadata st \<Longrightarrow>
   itemKeyOf gr metadata \<notin> st_backedUpItems st \<Longrightarrow>
     backupItem_begin ib obj gr st =
       (case ib_handleHooks ib gr obj hookPhasePre of
          Some err \<Rightarrow>
            Inl (Some err,
                 logCall (HookCall gr obj hookPhasePre)
                   (st\<lparr>st_backedUpItems := insert (itemKeyOf gr metadata) (st_backedUpItems st)\<rparr>))
        | None \<Rightarrow>
            Inr (metadata,
                 logCall (HookCall gr obj hookPhasePre)
                   (st\<lparr>st_backedUpItems := insert (itemKeyOf gr metadata) (st_backedUpItems st)\<rparr>)))"
  by (auto simp: backupItem_begin_def Let_def itemKeyOf_def item_included_def
           split: option.splits)

lemma backupItem_records_key:
  assumes acc: "meta_Accessor obj = Inr metadata"
    and inc: "item_included ib gr metadata st"
    and new: "itemKeyOf gr metadata \<notin> st_backedUpItems st"
  shows "itemKeyOf gr metadata \<in> st_backedUpItems (snd (backupItem ib fuel obj gr st))"
proof (cases "ib_handleHooks ib gr obj hookPhasePre")
  case (Some err)
  then show ?thesis
    using backupItem_begin_new [OF acc inc new]
    by (simp add: backupItem.simps)
next
  case None
  let ?st2 = "logCall (HookCall gr obj hookPhasePre)
                (st\<lparr>st_backedUpItems := insert (itemKeyOf gr metadata) (st_backedUpItems st)\<rparr>)"
  have b: "backupItem_begin ib obj gr st = Inr (metadata, ?st2)"
    using backupItem_begin_new [OF acc inc new] None by simp
  let ?ea = "executeActions ib fuel (ib_actions ib) obj gr (meta_Name metadata)
               (meta_Namespace metadata) metadata ?st2"
  have grow: "st_backedUpItems ?st2 \<subseteq> st_backedUpItems (snd ?ea)"
    using backup_wrote_new_keys(2) wrote_new_keys_subset by blast
  have mem: "itemKeyOf gr metadata \<in> st_backedUpItems (snd ?ea)"
    using grow by auto
  obtain oc st3 where ea: "?ea = (oc, st3)" by (cases ?ea)
  show ?thesis
  proof (cases oc)
    case OutOfFuel
    then show ?thesis using b ea mem by (simp add: backupItem.simps)
  next
    case (Returned actionErr)
    have "snd (backupItem ib fuel obj gr st) =
            snd (backupItem_finish ib obj gr (meta_Namespace metadata) (meta_Name metadata)
                   actionErr st3)"
      using b ea Returned by (simp add: backupItem.simps split: prod.splits)
    then show ?thesis
      using backupItem_finish_effect [of ib obj gr "meta_Namespace metadata" "meta_Name metadata"
              actionErr st3] mem ea
      by simp
  qed
qed

text \<open>
  Claim C1. When \<^verbatim>\<open>backupItem\<close> is called with an item whose key is already in
  \<^verbatim>\<open>backedUpItems\<close>, it returns nil and leaves the state, and with it the archive, as
  it was; this holds for every call, so also for the calls \<^verbatim>\<open>executeActions\<close> makes
  for additional items. An included item whose key is new has its key recorded before the
  pre hooks, the actions and the write. Hence every call adds to the archive only entries
  of keys that were not recorded before, each once; after any sequence of calls from the
  initial state the archive holds the entries of a duplicate-free list of keys, and its
  paths are distinct wherever distinct keys have distinct paths. All of this holds for
  every amount of fuel, whether the run returns or not.
\<close>

theorem backupItem_dedup:
  "(meta_Accessor obj = Inr metadata \<and> itemKeyOf gr metadata \<in> st_backedUpItems st \<longrightarrow>
      backupItem ib fuel obj gr st = (Returned None, st))
   \<and> (meta_Accessor obj = Inr metadata \<and> item_included ib gr metadata st
        \<and> itemKeyOf gr metadata \<notin> st_backedUpItems st \<longrightarrow>
        backupItem_begin ib obj gr st =
          (case ib_handleHooks ib gr obj hookPhasePre of
             Some err \<Rightarrow>
               Inl (Some err,
                    logCall (HookCall gr obj hookPhasePre)
                      (st\<lparr>st_backedUpItems :=
                            insert (itemKeyOf gr metadata) (st_backedUpItems st)\<rparr>))
           | None \<Rightarrow>
               Inr (metadata,
                    logCall (HookCall gr obj hookPhasePre)
                      (st\<lparr>st_backedUpItems :=
                            insert (itemKeyOf gr metadata) (st_backedUpItems st)\<rparr>)))
        \<and> itemKeyOf gr metadata \<in> st_backedUpItems (snd (backupItem ib fuel obj gr st)))
   \<and> wrote_new_keys st (snd (backupItem ib fuel obj gr st))
   \<and> (archive_dedup st \<longrightarrow> archive_dedup (snd (backupItem ib fuel obj gr st)))
   \<and> archive_dedup (backupItem_calls ib fuel items (initial_state backup))
   \<and> (inj_on keyPath (st_backedUpItems (backupItem_calls ib fuel items (initial_state backup))) \<longrightarrow>
        distinct (tarNames (backupItem_calls ib fuel items (initial_state backup))))"
proof -
  have run: "archive_dedup (backupItem_calls ib fuel items (initial_state backup))"
    using archive_dedup_step [OF archive_dedup_initial wrote_new_keys_calls] .
  have step: "archive_dedup st \<Longrightarrow> archive_dedup (snd (backupItem ib fuel obj gr st))"
    using archive_dedup_step backup_wrote_new_keys(1) by blast
  show ?thesis
    using backupItem_already_backed_up [of obj metadata gr st ib fuel]
          backupItem_begin_new [of obj metadata ib gr st]
          backupItem_records_key [of obj metadata ib gr st fuel]
          backup_wrote_new_keys(1) [of st ib fuel obj gr]
          step run archive_dedup_distinct [OF run]
    by blast
qed

text \<open>
  The pod of the example is backed up first; its action has the claim backed up on the
  way. Backing up the claim and the pod again then changes nothing, and the archive holds
  the two entries once each.
\<close>

theorem backupItem_dedup_witness:
  "meta_Accessor ex_pvc =
     Inr \<lparr> meta_Namespace = ''ns1'', meta_Name = ''c'', meta_Labels = Map.empty \<rparr>
   \<and> \<lparr> key_resource = ''persistentvolumeclaims'', key_namespace = ''ns1'', key_name = ''c'' \<rparr>
       \<in> st_backedUpItems (snd (backupItem ex_ib (Suc 0) ex_pod gr_pods (initial_state ex_backup)))
   \<and> backupItem ex_ib (Suc 0) ex_pvc gr_pvcs
         (snd (backupItem ex_ib (Suc 0) ex_pod gr_pods (initial_state ex_backup))) =
       (Returned None, snd (backupItem ex_ib (Suc 0) ex_pod gr_pods (initial_state ex_backup)))
   \<and> tarNames (backupItem_calls ex_ib (Suc 0)
         [(ex_pod, gr_pods), (ex_pvc, gr_pvcs), (ex_pod, gr_pods)] (initial_state ex_backup)) =
       [''resources/persistentvolumeclaims/namespaces/ns1/c.json'',
        ''resources/pods/namespaces/ns1/p.json'']
   \<and> archive_dedup (backupItem_calls ex_ib (Suc 0)
         [(ex_pod, gr_pods), (ex_pvc, gr_pvcs), (ex_pod, gr_pods)] (initial_state ex_backup))"
proof -
  let ?st1 = "snd (backupItem ex_ib (Suc 0) ex_pod gr_pods (initial_state ex_backup))"
  let ?md = "\<lparr> meta_Namespace = ''ns1'', meta_Name = ''c'', meta_Labels = Map.empty \<rparr>"
  have acc: "meta_Accessor ex_pvc = Inr ?md"
    by (simp add: ex_defs meta_Accessor_def)
  have keys: "st_backedUpItems ?st1 =
      {\<lparr> key_resource = ''persistentvolumeclaims'', key_namespace = ''ns1'', key_name = ''c'' \<rparr>,
       \<lparr> key_resource = ''pods'', key_namespace = ''ns1'', key_name = ''p'' \<rparr>}"
    by (simp add: ex_defs model_defs)
  have key: "itemKeyOf gr_pvcs ?md =
      \<lparr> key_resource = ''persistentvolumeclaims'', key_namespace = ''ns1'', key_name = ''c'' \<rparr>"
    by (simp add: itemKeyOf_def gr_pvcs_def GroupResource_String_def)
  have mem: "itemKeyOf gr_pvcs ?md \<in> st_backedUpItems ?st1"
    using keys key by simp
  have skip: "backupItem ex_ib (Suc 0) ex_pvc gr_pvcs ?st1 = (Returned None, ?st1)"
    using backupItem_dedup [where obj = ex_pvc and metadata = ?md and gr = gr_pvcs
            and st = ?st1 and ib = ex_ib and fuel = "Suc 0" and items = "[]" and backup = ex_backup]
          acc mem
    by blast
  have names: "tarNames (backupItem_calls ex_ib (Suc 0)
         [(ex_pod, gr_pods), (ex_pvc, gr_pvcs), (ex_pod, gr_pods)] (initial_state ex_backup)) =
       [''resources/persistentvolumeclaims/namespaces/ns1/c.json'',
        ''resources/pods/namespaces/ns1/p.json'']"
    by (simp add: ex_defs model_defs tarNames_def)
  have dedup: "archive_dedup (backupItem_calls ex_ib (Suc 0)
         [(ex_pod, gr_pods), (ex_pvc, gr_pvcs), (ex_pod, gr_pods)] (initial_state ex_backup))"
    using backupItem_dedup [where ib = ex_ib and fuel = "Suc 0"
            and items = "[(ex_pod, gr_pods), (ex_pvc, gr_pvcs), (ex_pod, gr_pods)]"
            and backup = ex_backup and obj = ex_pvc and metadata = ?md and gr = gr_pvcs
            and st = ?st1]
    by blast
  show ?thesis
    using acc mem skip names dedup key by simp
qed

section \<open>Properties of the restic command line\<close>

lemma go_range_length:
  "iteration_order order m \<Longrightarrow> length (go_range order m) = card (dom m)"
proof -
  assume io: "iteration_order order m"
  have all_some: "\<forall>k \<in> set order. m k \<noteq> None"
    using io by (auto simp: iteration_order_def)
  have "length (go_range order m) = length order"
    using all_some
    by (induction order) (auto simp: go_range_def)
  also have "\<dots> = card (dom m)"
    using io by (metis iteration_order_def distinct_card)
  finally show ?thesis .
qed

lemma go_range_set_of:
  "set (go_range order m) = {(k, v). k \<in> set order \<and> m k = Some v}"
  by (induction order) (auto simp: go_range_def split: option.splits)

lemma go_range_set:
  "set order = dom m \<Longrightarrow> set (go_range order m) = {(k, v). m k = Some v}"
  by (auto simp: go_range_set_of)

lemma StringSlice_closed_form:
  "StringSlice c =
     (if BaseName c = [] then ''/restic'' else BaseName c)
     # Command c
     # (''--repo='' @ RepoPrefix c @ ''/'' @ Repo c)
     # (if PasswordFile c = [] then [] else [''--password-file='' @ PasswordFile c])
     @ Args c @ ExtraFlags c"
  by (simp add: StringSlice_def Let_def repoFlag_def passwordFlag_def)

lemma backupTagFlags_set:
  "iteration_order order tags \<Longrightarrow>
     set (backupTagFlags order tags) = {''--tag='' @ k @ ''='' @ v | k v. tags k = Some v}"
proof -
  assume io: "iteration_order order tags"
  have "set (backupTagFlags order tags) = tagFlag ` {(k, v). tags k = Some v}"
    using io by (simp add: backupTagFlags_def go_range_set iteration_order_def)
  also have "\<dots> = {tagFlag (k, v) | k v. tags k = Some v}"
    by auto
  finally show ?thesis
    by (simp add: tagFlag_def)
qed

text \<open>
  Claim C8. The argument vector \<^verbatim>\<open>Command.StringSlice\<close> builds is the base binary
  (\<^verbatim>\<open>/restic\<close> when none is set), the subcommand, \<^verbatim>\<open>--repo=<prefix>/<repo>\<close>,
  then \<^verbatim>\<open>--password-file=<file>\<close> when a password file is set, then the positional
  arguments, then the extra flags. \<^verbatim>\<open>BackupCommand\<close> has one
  \<^verbatim>\<open>--tag=<k>=<v>\<close> flag per entry of its tags map, whatever the order the runtime
  ranges over the map in, and the tags of a pod-volume backup hold \<^verbatim>\<open>backup-uid\<close>,
  \<^verbatim>\<open>pod-uid\<close> and \<^verbatim>\<open>volume\<close>.
\<close>

theorem restic_command_line:
  "StringSlice c =
     (if BaseName c = [] then ''/restic'' else BaseName c)
     # Command c
     # (''--repo='' @ RepoPrefix c @ ''/'' @ Repo c)
     # (if PasswordFile c = [] then [] else [''--password-file='' @ PasswordFile c])
     @ Args c @ ExtraFlags c
   \<and> (iteration_order order tags \<longrightarrow>
        StringSlice (BackupCommand repoPrefix repo passwordFile path order tags) =
          ''/restic'' # ''backup'' # (''--repo='' @ repoPrefix @ ''/'' @ repo)
          # (if passwordFile = [] then [] else [''--password-file='' @ passwordFile])
          @ [path] @ backupTagFlags order tags
        \<and> length (backupTagFlags order tags) = card (dom tags)
        \<and> set (backupTagFlags order tags) = {''--tag='' @ k @ ''='' @ v | k v. tags k = Some v})
   \<and> handleResticBackup_tags s volumeName ''backup-uid'' = Some (rts_backupUID s)
   \<and> handleResticBackup_tags s volumeName ''pod-uid'' = Some (rts_podUID s)
   \<and> handleResticBackup_tags s volumeName ''volume'' = Some volumeName
   \<and> (iteration_order order' (handleResticBackup_tags s volumeName) \<longrightarrow>
        {''--tag=backup-uid='' @ rts_backupUID s, ''--tag=pod-uid='' @ rts_podUID s,
         ''--tag=volume='' @ volumeName} \<subseteq> set (handleResticBackup_tagsFlags order' s volumeName))"
proof -
  have slice: "StringSlice c =
     (if BaseName c = [] then ''/restic'' else BaseName c)
     # Command c
     # (''--repo='' @ RepoPrefix c @ ''/'' @ Repo c)
     # (if PasswordFile c = [] then [] else [''--password-file='' @ PasswordFile c])
     @ Args c @ ExtraFlags c"
    by (rule StringSlice_closed_form)
  have backup: "StringSlice (BackupCommand repoPrefix repo passwordFile path order tags) =
          ''/restic'' # ''backup'' # (''--repo='' @ repoPrefix @ ''/'' @ repo)
          # (if passwordFile = [] then [] else [''--password-file='' @ passwordFile])
          @ [path] @ backupTagFlags order tags"
    by (simp add: StringSlice_closed_form BackupCommand_def)
  have len: "iteration_order order tags \<Longrightarrow> length (backupTagFlags order tags) = card (dom tags)"
    by (simp add: backupTagFlags_def go_range_length)
  have t1: "handleResticBackup_tags s volumeName ''backup-uid'' = Some (rts_backupUID s)"
    and t2: "handleResticBackup_tags s volumeName ''pod-uid'' = Some (rts_podUID s)"
    and t3: "handleResticBackup_tags s volumeName ''volume'' = Some volumeName"
    by (simp_all add: handleResticBackup_tags_def)
  have flags: "iteration_order order' (handleResticBackup_tags s volumeName) \<Longrightarrow>
        {''--tag=backup-uid='' @ rts_backupUID s, ''--tag=pod-uid='' @ rts_podUID s,
         ''--tag=volume='' @ volumeName} \<subseteq> set (handleResticBackup_tagsFlags order' s volumeName)"
  proof -
    assume io: "iteration_order order' (handleResticBackup_tags s volumeName)"
    have "set (handleResticBackup_tagsFlags order' s volumeName) =
           {''--tag='' @ k @ ''='' @ v | k v. handleResticBackup_tags s volumeName k = Some v}"
      using backupTagFlags_set [OF io]
      by (simp add: handleResticBackup_tagsFlags_def backupTagFlags_def)
    moreover have "''--tag=backup-uid='' @ rts_backupUID s = ''--tag='' @ ''backup-uid'' @ ''='' @ rts_backupUID s"
      by simp
    moreover have "''--tag=pod-uid='' @ rts_podUID s = ''--tag='' @ ''pod-uid'' @ ''='' @ rts_podUID s"
      by simp
    moreover have "''--tag=volume='' @ volumeName = ''--tag='' @ ''volume'' @ ''='' @ volumeName"
      by simp
    ultimately show ?thesis
      using t1 t2 t3 by blast
  qed
  show ?thesis
    using slice backup len backupTagFlags_set t1 t2 t3 flags by blast
qed

text \<open>
  The command line of a backup with two tags, ranged over in the order \<open>b\<close>, \<open>a\<close>.
\<close>

theorem restic_command_line_witness:
  "iteration_order [''b'', ''a''] [''a'' \<mapsto> ''1'', ''b'' \<mapsto> ''2'']
   \<and> StringSlice (BackupCommand ''s3:bucket'' ''ns1'' ''/tmp/pw'' ''/data'' [''b'', ''a'']
         [''a'' \<mapsto> ''1'', ''b'' \<mapsto> ''2'']) =
       [''/restic'', ''backup'', ''--repo=s3:bucket/ns1'', ''--password-file=/tmp/pw'', ''/data'',
        ''--tag=b=2'', ''--tag=a=1'']
   \<and> length (backupTagFlags [''b'', ''a''] [''a'' \<mapsto> ''1'', ''b'' \<mapsto> ''2'']) = 2"
proof -
  have io: "iteration_order [''b'', ''a''] [''a'' \<mapsto> ''1'', ''b'' \<mapsto> ''2'']"
    by (auto simp: iteration_order_def)
  have fl: "backupTagFlags [''b'', ''a''] [''a'' \<mapsto> ''1'', ''b'' \<mapsto> ''2''] = [''--tag=b=2'', ''--tag=a=1'']"
    by (simp add: backupTagFlags_def go_range_def tagFlag_def)
  show ?thesis
    using io fl
      restic_command_line [where c = "BackupCommand [] [] [] [] [] Map.empty" and order = "[''b'', ''a'']" and tags = "[''a'' \<mapsto> ''1'', ''b'' \<mapsto> ''2'']"
        and repoPrefix = "''s3:bucket''" and repo = "''ns1''" and passwordFile = "''/tmp/pw''" and path = "''/data''"]
    by (simp del: StringSlice_closed_form)
qed

section \<open>Properties of the configuration defaults\<close>

text \<open>
  Claim C9. After \<^verbatim>\<open>applyConfigDefaults\<close> the object store's configuration map is
  non-nil, maps \<^verbatim>\<open>bucket\<close> to the configured bucket and agrees with the map it was
  given on every other key; each sync period is replaced by its default (60 minutes, 60
  minutes, 1 minute, in nanoseconds) only when it is zero, and the resource priorities by
  the default list only when they are empty.
\<close>

theorem applyConfigDefaults_result:
  "bsp_Config (BackupStorageProvider (applyConfigDefaults c)) =
      Some ((case bsp_Config (BackupStorageProvider c) of None \<Rightarrow> Map.empty | Some m \<Rightarrow> m)
              (''bucket'' \<mapsto> bsp_Bucket (BackupStorageProvider c)))
   \<and> bsp_Bucket (BackupStorageProvider (applyConfigDefaults c)) = bsp_Bucket (BackupStorageProvider c)
   \<and> bsp_Name (BackupStorageProvider (applyConfigDefaults c)) = bsp_Name (BackupStorageProvider c)
   \<and> GCSyncPeriod (applyConfigDefaults c) =
        (if GCSyncPeriod c = 0 then 3600000000000 else GCSyncPeriod c)
   \<and> BackupSyncPeriod (applyConfigDefaults c) =
        (if BackupSyncPeriod c = 0 then 3600000000000 else BackupSyncPeriod c)
   \<and> ScheduleSyncPeriod (applyConfigDefaults c) =
        (if ScheduleSyncPeriod c = 0 then 60000000000 else ScheduleSyncPeriod c)
   \<and> ResourcePriorities (applyConfigDefaults c) =
        (if ResourcePriorities c = [] then defaultResourcePriorities else ResourcePriorities c)"
  by (cases "bsp_Config (BackupStorageProvider c)")
     (simp_all add: applyConfigDefaults_def Let_def defaultGCSyncPeriod_def
       defaultBackupSyncPeriod_def defaultScheduleSyncPeriod_def Minute_def)

section \<open>Properties of the init-repository options\<close>



end
